theory Spec2Isabelle
  imports Main
begin

section \<open>compose.go: the data model\<close>

text \<open>
  A Go \<^verbatim>\<open>error\<close> value is represented by its message; a nil error is \<open>None\<close>
  of \<open>error option\<close>.
\<close>

datatype error = GoError string

fun err_Error :: "error \<Rightarrow> string" where
  "err_Error (GoError s) = s"

definition envProjectName :: string where
  "envProjectName = ''COMPOSE_PROJECT_NAME''"

definition envComposeFile :: string where
  "envComposeFile = ''COMPOSE_FILE''"

text \<open>
  \<^verbatim>\<open>LocalDockerCompose\<close>. A nil slice is the empty list, a nil map is the empty map
  (ranging over either runs no iteration).
\<close>

record LocalDockerCompose =
  Executable :: string
  ComposeFilePaths :: "string list"
  absComposeFilePaths :: "string list"
  Identifier :: string
  Cmd :: "string list"
  Env :: "string \<rightharpoonup> string"

record ExecError =
  Error :: "error option"
  Stdout :: "error option"
  Stderr :: "error option"

text \<open>
  The \<^verbatim>\<open>exec.Cmd\<close> that \<^verbatim>\<open>execute\<close> builds. \<^verbatim>\<open>cmd.Env\<close> is \<^verbatim>\<open>os.Environ()\<close>
  followed by one \<^verbatim>\<open>key=value\<close> entry for each entry of the environment map, in the
  unspecified order of Go's map iteration: the record keeps the inherited list and the
  appended map apart.
\<close>

record exec_Cmd =
  Cmd_Path :: string
  Cmd_Args :: "string list"
  Cmd_Dir :: string
  Cmd_Environ :: "string list"
  Cmd_Overlay :: "string \<rightharpoonup> string"

datatype os_File = os_Stdout | os_Stderr

text \<open>
  What an operation does to the outside world, in order: the trace of its calls.
\<close>

datatype event =
    EvLookPath string
  | EvStdoutPipe
  | EvStderrPipe
  | EvNewTee os_File
  | EvStart exec_Cmd
  | EvGoCopy os_File
  | EvWait exec_Cmd

text \<open>
  The standard library and the operating system, as the code calls them. The fields are
  parameters of every theorem: nothing is assumed about them. \<open>read_errStdout\<close> and
  \<open>read_errStderr\<close> are the values of the variables \<^verbatim>\<open>errStdout\<close> and
  \<^verbatim>\<open>errStderr\<close> at the moment the final return statement of \<^verbatim>\<open>execute\<close> reads
  them (nil when the goroutine has not assigned yet, the result of \<^verbatim>\<open>io.Copy\<close>
  otherwise).
\<close>

record host =
  runtime_GOOS :: string
  os_PathListSeparator :: char
  os_Environ :: "string list"
  filepath_Abs :: "string \<Rightarrow> string \<times> error option"
  filepath_Split :: "string \<Rightarrow> string \<times> string"
  strings_ToLower :: "string \<Rightarrow> string"
  exec_LookPath :: "string \<Rightarrow> string \<times> error option"
  cmd_Start :: "exec_Cmd \<Rightarrow> error option"
  cmd_Wait :: "exec_Cmd \<Rightarrow> error option"
  read_errStdout :: "exec_Cmd \<Rightarrow> error option"
  read_errStderr :: "exec_Cmd \<Rightarrow> error option"

text \<open>A call either returns or panics with a message.\<close>

datatype 'a outcome = Return 'a | Panic string

section \<open>compose.go: the Output Tee\<close>

text \<open>
  \<^verbatim>\<open>capturingPassThroughWriter\<close>: \<open>buf\<close> is the content of the \<^verbatim>\<open>bytes.Buffer\<close>
  (nothing ever reads from it, so \<^verbatim>\<open>Bytes\<close> is all of it), \<open>w\<close> the state of the
  destination \<^verbatim>\<open>io.Writer\<close>. The destination's \<^verbatim>\<open>Write\<close> method is the parameter
  \<open>wr\<close>: it takes the destination's state and the bytes and returns the pair
  (byte count, error) with the new state.
\<close>

record 'w capturingPassThroughWriter =
  buf :: string
  w :: 'w

type_synonym 'w io_Write = "'w \<Rightarrow> string \<Rightarrow> (int \<times> error option) \<times> 'w"

definition newCapturingPassThroughWriter :: "'w \<Rightarrow> 'w capturingPassThroughWriter" where
  "newCapturingPassThroughWriter dst = \<lparr>buf = [], w = dst\<rparr>"

definition Write :: "'w io_Write \<Rightarrow> 'w capturingPassThroughWriter \<Rightarrow> string
    \<Rightarrow> (int \<times> error option) \<times> 'w capturingPassThroughWriter" where
  "Write wr t d =
     (let t1 = t\<lparr>buf := buf t @ d\<rparr>;
          (res, dst) = wr (w t1) d
      in (res, t1\<lparr>w := dst\<rparr>))"

definition Bytes :: "'w capturingPassThroughWriter \<Rightarrow> string" where
  "Bytes t = buf t"

text \<open>A sequence of write calls on the tee, and the same sequence on a bare destination.\<close>

fun tee_writes :: "'w io_Write \<Rightarrow> 'w capturingPassThroughWriter \<Rightarrow> string list
    \<Rightarrow> (int \<times> error option) list \<times> 'w capturingPassThroughWriter" where
  "tee_writes wr t [] = ([], t)"
| "tee_writes wr t (d # ds) =
     (let (res, t1) = Write wr t d;
          (rs, t2) = tee_writes wr t1 ds
      in (res # rs, t2))"

fun dst_writes :: "'w io_Write \<Rightarrow> 'w \<Rightarrow> string list \<Rightarrow> (int \<times> error option) list \<times> 'w" where
  "dst_writes wr dst [] = ([], dst)"
| "dst_writes wr dst (d # ds) =
     (let (res, dst1) = wr dst d;
          (rs, dst2) = dst_writes wr dst1 ds
      in (res # rs, dst2))"

section \<open>compose.go: the Compose Driver and the Process Runner\<close>

definition NewLocalDockerCompose :: "host \<Rightarrow> string list \<Rightarrow> string \<Rightarrow> LocalDockerCompose" where
  "NewLocalDockerCompose h filePaths identifier =
     \<lparr>Executable = (if runtime_GOOS h = ''windows'' then ''docker-compose.exe'' else ''docker-compose''),
      ComposeFilePaths = filePaths,
      absComposeFilePaths = map (\<lambda>cfp. fst (filepath_Abs h cfp)) filePaths,
      Identifier = strings_ToLower h identifier,
      Cmd = [],
      Env = Map.empty\<rparr>"

definition getDockerComposeEnvironment :: "host \<Rightarrow> LocalDockerCompose \<Rightarrow> (string \<rightharpoonup> string)" where
  "getDockerComposeEnvironment h dc =
     (let environment = Map.empty;
          composeFileEnvVariableValue =
            foldl (\<lambda>acc abs. acc @ abs @ [os_PathListSeparator h]) [] (absComposeFilePaths dc);
          environment = environment(envProjectName \<mapsto> Identifier dc);
          environment = environment(envComposeFile \<mapsto> composeFileEnvVariableValue)
      in environment)"

definition WithCommand :: "LocalDockerCompose \<Rightarrow> string list \<Rightarrow> LocalDockerCompose" where
  "WithCommand dc cmd = dc\<lparr>Cmd := cmd\<rparr>"

definition WithEnv :: "LocalDockerCompose \<Rightarrow> (string \<rightharpoonup> string) \<Rightarrow> LocalDockerCompose" where
  "WithEnv dc env = dc\<lparr>Env := env\<rparr>"

definition execute :: "host \<Rightarrow> string \<Rightarrow> (string \<rightharpoonup> string) \<Rightarrow> string \<Rightarrow> string list
    \<Rightarrow> event list \<Rightarrow> ExecError \<times> event list" where
  "execute h dirContext environment binary args tr =
     (let errStdout = None;
          errStderr = None;
          cmd = \<lparr>Cmd_Path = binary, Cmd_Args = args, Cmd_Dir = dirContext,
                 Cmd_Environ = os_Environ h, Cmd_Overlay = environment\<rparr>;
          tr1 = tr @ [EvStdoutPipe, EvStderrPipe, EvNewTee os_Stdout, EvNewTee os_Stderr];
          err = cmd_Start h cmd;
          tr2 = tr1 @ [EvStart cmd]
      in if err \<noteq> None
         then (\<lparr>Error = err, Stdout = errStdout, Stderr = errStderr\<rparr>, tr2)
         else (let tr3 = tr2 @ [EvGoCopy os_Stdout, EvGoCopy os_Stderr];
                   err = cmd_Wait h cmd;
                   tr4 = tr3 @ [EvWait cmd]
               in (\<lparr>Error = err, Stdout = read_errStdout h cmd, Stderr = read_errStderr h cmd\<rparr>,
                   tr4)))"

definition which :: "host \<Rightarrow> string \<Rightarrow> error option" where
  "which h binary = snd (exec_LookPath h binary)"

fun strings_Join :: "string list \<Rightarrow> string \<Rightarrow> string" where
  "strings_Join [] sep = []"
| "strings_Join [x] sep = x"
| "strings_Join (x # xs) sep = x @ sep @ strings_Join xs sep"

definition executeCompose :: "host \<Rightarrow> LocalDockerCompose \<Rightarrow> string list \<Rightarrow> event list
    \<Rightarrow> ExecError outcome \<times> event list" where
  "executeCompose h dc args tr =
     (let tr1 = tr @ [EvLookPath (Executable dc)]
      in if which h (Executable dc) \<noteq> None
         then (Panic (''Local Docker Compose not found. Is '' @ Executable dc @ '' on the PATH?''), tr1)
         else (let environment = getDockerComposeEnvironment h dc ++ Env dc;
                   cmds = [];
                   pwd = ''.'';
                   (pwd, cmds) =
                     (if length (absComposeFilePaths dc) > 0
                      then (fst (filepath_Split h (absComposeFilePaths dc ! 0)),
                            foldl (\<lambda>cmds abs. cmds @ [''-f'', abs]) cmds (absComposeFilePaths dc))
                      else (pwd, cmds @ [''-f'', ''docker-compose.yml'']));
                   cmds = cmds @ args;
                   (execErr, tr2) = execute h pwd environment (Executable dc) cmds tr1
               in case Error execErr of
                    Some err \<Rightarrow>
                      (Panic (''Local Docker compose exited abnormally whilst running '' @
                              Executable dc @ '': ['' @ strings_Join (Cmd dc) '' '' @ '']. '' @
                              err_Error err), tr2)
                  | None \<Rightarrow> (Return execErr, tr2)))"

definition Down :: "host \<Rightarrow> LocalDockerCompose \<Rightarrow> event list \<Rightarrow> ExecError outcome \<times> event list" where
  "Down h dc tr = executeCompose h dc [''down''] tr"

definition Invoke :: "host \<Rightarrow> LocalDockerCompose \<Rightarrow> event list \<Rightarrow> ExecError outcome \<times> event list" where
  "Invoke h dc tr = executeCompose h dc (Cmd dc) tr"

text \<open>The commands an operation started, oldest first.\<close>

fun started :: "event list \<Rightarrow> exec_Cmd list" where
  "started [] = []"
| "started (EvStart c # es) = c # started es"
| "started (e # es) = started es"

text \<open>
  A driver as a caller gets it: constructed, then configured. \<^verbatim>\<open>WithCommand\<close> and
  \<^verbatim>\<open>WithEnv\<close> each replace one field, so any chain of configuration calls leaves the
  driver that one call of each (the last) leaves; a driver never configured has the empty
  command and the empty overlay.
\<close>

definition configured :: "host \<Rightarrow> string list \<Rightarrow> string \<Rightarrow> string list \<Rightarrow> (string \<rightharpoonup> string)
    \<Rightarrow> LocalDockerCompose" where
  "configured h filePaths identifier cmd env =
     WithEnv (WithCommand (NewLocalDockerCompose h filePaths identifier) cmd) env"

text \<open>A destination that accepts every write whole and remembers the calls it received.\<close>

definition recording_Write :: "string list io_Write" where
  "recording_Write calls d = ((int (length d), None), calls @ [d])"

section \<open>modulegen/main.go\<close>

record Example =
  Image :: string
  IsModule :: bool
  Name :: string
  TitleName :: string
  TCVersion :: string

text \<open>
  \<^verbatim>\<open>Context\<close> is declared in a file of the package that is not among the sources; main.go
  reads its field \<^verbatim>\<open>RootDir\<close> and calls its methods, which are parameters below.
\<close>

record Context =
  RootDir :: string

text \<open>The calls \<^verbatim>\<open>main\<close> and \<^verbatim>\<open>generate\<close> make to the outside world.\<close>

datatype call =
    CallPrint os_File string
  | CallAbs string
  | CallReadConfig string
  | CallMkdirAll string nat
  | CallParseFiles string string
  | CallCreate string
  | CallExecuteTemplate string string Example
  | CallClose string
  | CallGetwd
  | CallGetExamples Context
  | CallGetModules Context
  | CallWorkflowGenerate string "string list" "string list"
  | CallMkdocsUpdateConfig string bool string string
  | CallDependabotUpdateConfig string string string
  | CallGoModTidy string
  | CallGoVet string

text \<open>
  The outside world of the generator. What a call returns may depend on every call made
  before it: \<open>ret_err\<close>, \<open>ret_str\<close> and \<open>ret_strs\<close> take the trace so far and the call.
  The other fields are the pure library functions and the methods of \<^verbatim>\<open>Context\<close>.
\<close>

record sys =
  ret_err :: "call list \<Rightarrow> call \<Rightarrow> error option"
  ret_str :: "call list \<Rightarrow> call \<Rightarrow> string"
  ret_strs :: "call list \<Rightarrow> call \<Rightarrow> string list"
  sys_Join :: "string list \<Rightarrow> string"
  sys_Dir :: "string \<Rightarrow> string"
  sys_ToLower :: "string \<Rightarrow> string"
  sys_Title :: "string \<Rightarrow> string"
  sys_DecodeRuneInString :: "string \<Rightarrow> nat \<times> nat"
  sys_unicode_ToLower :: "nat \<Rightarrow> nat"
  sys_string_of_rune :: "nat \<Rightarrow> string"
  NewContext :: "string \<Rightarrow> Context"
  DocsDir :: "Context \<Rightarrow> string"
  MkdocsConfigFile :: "Context \<Rightarrow> string"
  DependabotConfigFile :: "Context \<Rightarrow> string"
  GithubWorkflowsDir :: "Context \<Rightarrow> string"

definition templates :: "string list" where
  "templates = [''docs_example.md'', ''example_test.go'', ''example.go'', ''go.mod'', ''Makefile'']"

definition Lower :: "sys \<Rightarrow> Example \<Rightarrow> string" where
  "Lower s e = sys_ToLower s (Name e)"

definition Title :: "sys \<Rightarrow> Example \<Rightarrow> string" where
  "Title s e = (if TitleName e \<noteq> [] then TitleName e else sys_Title s (Lower s e))"

definition ContainerName :: "sys \<Rightarrow> Example \<Rightarrow> string" where
  "ContainerName s e =
     (let name = Lower s e;
          name = (if IsModule e then Title s e
                  else if TitleName e \<noteq> []
                       then (let (r, n) = sys_DecodeRuneInString s (TitleName e)
                             in sys_string_of_rune s (sys_unicode_ToLower s r) @ drop n (TitleName e))
                       else name)
      in name @ ''Container'')"

definition Entrypoint :: "Example \<Rightarrow> string" where
  "Entrypoint e = (if IsModule e then ''RunContainer'' else ''runContainer'')"

definition ParentDir :: "Example \<Rightarrow> string" where
  "ParentDir e = (if IsModule e then ''modules'' else ''examples'')"

definition Type :: "Example \<Rightarrow> string" where
  "Type e = (if IsModule e then ''module'' else ''example'')"

text \<open>
  The regular expression \<^verbatim>\<open>^[A-Za-z][A-Za-z0-9]*$\<close>. Both classes hold ASCII bytes only
  and no flag is set, so \<^verbatim>\<open>$\<close> is the end of the text: a string matches when its first
  byte is a letter and every other byte a letter or a digit.
\<close>

definition isLetter :: "char \<Rightarrow> bool" where
  "isLetter c = (let n = (of_char c :: nat) in (65 \<le> n \<and> n \<le> 90) \<or> (97 \<le> n \<and> n \<le> 122))"

definition isDigit :: "char \<Rightarrow> bool" where
  "isDigit c = (let n = (of_char c :: nat) in 48 \<le> n \<and> n \<le> 57)"

fun MatchString :: "string \<Rightarrow> bool" where
  "MatchString [] = False"
| "MatchString (c # cs) = (isLetter c \<and> list_all (\<lambda>x. isLetter x \<or> isDigit x) cs)"

definition Validate :: "Example \<Rightarrow> error option" where
  "Validate e =
     (if \<not> MatchString (Name e)
      then Some (GoError (''invalid name: '' @ Name e @
             ''. Only alphanumerical characters are allowed (leading character must be a letter)''))
      else if \<not> MatchString (TitleName e)
      then Some (GoError (''invalid title: '' @ TitleName e @
             ''. Only alphanumerical characters are allowed (leading character must be a letter)''))
      else None)"

text \<open>
  \<^verbatim>\<open>strings.EqualFold\<close> and \<^verbatim>\<open>strings.ReplaceAll\<close>, on the arguments \<^verbatim>\<open>generate\<close>
  gives them: both arguments of \<^verbatim>\<open>EqualFold\<close> are ASCII literals of the program, and the
  text replaced is the non-empty literal \<^verbatim>\<open>example\<close>.
\<close>

definition ascii_lower :: "char \<Rightarrow> char" where
  "ascii_lower c =
     (case map_of (zip ''ABCDEFGHIJKLMNOPQRSTUVWXYZ'' ''abcdefghijklmnopqrstuvwxyz'') c of
        Some l \<Rightarrow> l
      | None \<Rightarrow> c)"

definition EqualFold :: "string \<Rightarrow> string \<Rightarrow> bool" where
  "EqualFold a b = (map ascii_lower a = map ascii_lower b)"

fun starts_with :: "string \<Rightarrow> string \<Rightarrow> bool" where
  "starts_with [] s = True"
| "starts_with (p # ps) [] = False"
| "starts_with (p # ps) (c # cs) = (p = c \<and> starts_with ps cs)"

text \<open>\<open>replace_from k\<close> skips the \<open>k\<close> bytes left of a match already replaced.\<close>

fun replace_from :: "nat \<Rightarrow> string \<Rightarrow> string \<Rightarrow> string \<Rightarrow> string" where
  "replace_from k old new [] = []"
| "replace_from k old new (c # cs) =
     (if k > 0 then replace_from (k - 1) old new cs
      else if starts_with old (c # cs) then new @ replace_from (length old - 1) old new cs
      else c # replace_from 0 old new cs)"

definition ReplaceAll :: "string \<Rightarrow> string \<Rightarrow> string \<Rightarrow> string" where
  "ReplaceAll s old new = replace_from 0 old new s"

text \<open>Make a call: ask the world for its error result and record the call.\<close>

definition perform :: "sys \<Rightarrow> call \<Rightarrow> call list \<Rightarrow> error option \<times> call list" where
  "perform s c tr = (ret_err s tr c, tr @ [c])"

definition getRootContext :: "sys \<Rightarrow> call list \<Rightarrow> (error + Context) \<times> call list" where
  "getRootContext s tr =
     (let current = ret_str s tr CallGetwd;
          (err, tr1) = perform s CallGetwd tr
      in case err of
           Some e \<Rightarrow> (Inl e, tr1)
         | None \<Rightarrow> (Inr (NewContext s (sys_Dir s current)), tr1))"

definition generateWorkFlow :: "sys \<Rightarrow> Context \<Rightarrow> call list \<Rightarrow> error option \<times> call list" where
  "generateWorkFlow s ctx tr =
     (case getRootContext s tr of
        (Inl e, tr1) \<Rightarrow> (Some e, tr1)
      | (Inr rootCtx, tr1) \<Rightarrow>
          (let examples = ret_strs s tr1 (CallGetExamples rootCtx);
               (err, tr2) = perform s (CallGetExamples rootCtx) tr1
           in case err of
                Some e \<Rightarrow> (Some e, tr2)
              | None \<Rightarrow>
                  (let modules = ret_strs s tr2 (CallGetModules rootCtx);
                       (err, tr3) = perform s (CallGetModules rootCtx) tr2
                   in case err of
                        Some e \<Rightarrow> (Some e, tr3)
                      | None \<Rightarrow>
                          perform s (CallWorkflowGenerate (GithubWorkflowsDir s ctx) examples modules) tr3)))"

definition generateMkdocs :: "sys \<Rightarrow> Context \<Rightarrow> Example \<Rightarrow> call list \<Rightarrow> error option \<times> call list" where
  "generateMkdocs s ctx example tr =
     (let exampleMd = ParentDir example @ ''/'' @ Lower s example @ ''.md'';
          indexMd = ParentDir example @ ''/index.md''
      in perform s (CallMkdocsUpdateConfig (MkdocsConfigFile s ctx) (IsModule example) exampleMd indexMd) tr)"

definition generateDependabotUpdates :: "sys \<Rightarrow> Context \<Rightarrow> Example \<Rightarrow> call list
    \<Rightarrow> error option \<times> call list" where
  "generateDependabotUpdates s ctx example tr =
     (let directory = ''/'' @ ParentDir example @ ''/'' @ Lower s example
      in perform s (CallDependabotUpdateConfig (DependabotConfigFile s ctx) directory ''gomod'') tr)"

text \<open>
  The loop of \<^verbatim>\<open>generate\<close> over the templates. It returns the error that ended it (if
  any), the files whose \<^verbatim>\<open>Close\<close> is deferred (the last created first) and the trace.
  The error of \<^verbatim>\<open>os.Create\<close> is dropped by the source, so the model does not ask for it.
  The function map handed to the template holds closures over the example; they run inside
  the template's execution, which is one call to the world.
\<close>

fun generate_loop :: "sys \<Rightarrow> Example \<Rightarrow> string \<Rightarrow> string \<Rightarrow> string \<Rightarrow> string list \<Rightarrow> string list
    \<Rightarrow> call list \<Rightarrow> error option \<times> string list \<times> call list" where
  "generate_loop s example outputDir docsOuputDir exampleLower [] deferred tr = (None, deferred, tr)"
| "generate_loop s example outputDir docsOuputDir exampleLower (tmpl # rest) deferred tr =
     (let name = tmpl @ ''.tmpl'';
          (err, tr1) = perform s (CallParseFiles name (sys_Join s [''_template'', name])) tr
      in case err of
           Some e \<Rightarrow> (Some e, deferred, tr1)
         | None \<Rightarrow>
             (let exampleFilePath =
                    (if EqualFold tmpl ''docs_example.md''
                     then sys_Join s [docsOuputDir, exampleLower @ ''.md'']
                     else sys_Join s [outputDir, exampleLower, ReplaceAll tmpl ''example'' exampleLower]);
                  (err, tr2) = perform s (CallMkdirAll (sys_Dir s exampleFilePath) 511) tr1
              in case err of
                   Some e \<Rightarrow> (Some e, deferred, tr2)
                 | None \<Rightarrow>
                     (let tr3 = tr2 @ [CallCreate exampleFilePath];
                          deferred1 = exampleFilePath # deferred;
                          data = example;
                          (err, tr4) = perform s (CallExecuteTemplate exampleFilePath name data) tr3
                      in case err of
                           Some e \<Rightarrow> (Some e, deferred1, tr4)
                         | None \<Rightarrow>
                             generate_loop s example outputDir docsOuputDir exampleLower rest
                               deferred1 tr4)))"

definition generate :: "sys \<Rightarrow> Example \<Rightarrow> Context \<Rightarrow> call list \<Rightarrow> error option \<times> call list" where
  "generate s example ctx tr =
     (case Validate example of
        Some err \<Rightarrow> (Some err, tr)
      | None \<Rightarrow>
          (let outputDir = sys_Join s [RootDir ctx, ParentDir example];
               docsOuputDir = sys_Join s [DocsDir s ctx, ParentDir example];
               exampleLower = Lower s example;
               (err, tr1) = perform s (CallMkdirAll (sys_Join s [outputDir, exampleLower]) 448) tr
           in case err of
                Some e \<Rightarrow> (Some e, tr1)
              | None \<Rightarrow>
                  (let (err, deferred, tr2) =
                         generate_loop s example outputDir docsOuputDir exampleLower templates [] tr1;
                       (err, tr3) =
                         (case err of
                            Some e \<Rightarrow> (Some e, tr2)
                          | None \<Rightarrow>
                              (let (err, tr21) = generateWorkFlow s ctx tr2
                               in case err of
                                    Some e \<Rightarrow> (Some e, tr21)
                                  | None \<Rightarrow>
                                      (let (err, tr22) = generateMkdocs s ctx example tr21
                                       in case err of
                                            Some e \<Rightarrow> (Some e, tr22)
                                          | None \<Rightarrow>
                                              (let (err, tr23) =
                                                     generateDependabotUpdates s ctx example tr22
                                               in case err of
                                                    Some e \<Rightarrow> (Some e, tr23)
                                                  | None \<Rightarrow> (None, tr23)))))
                   in (err, tr3 @ map CallClose deferred))))"

text \<open>
  The command line after \<^verbatim>\<open>flag.Parse\<close>: for each flag, the value given or \<open>None\<close> when
  the flag was not given. A variable of a flag not given keeps its default, and
  \<^verbatim>\<open>flag.Visit\<close> visits exactly the flags given.
\<close>

record cmdline =
  flag_name :: "string option"
  flag_title :: "string option"
  flag_image :: "string option"
  flag_as_module :: "bool option"

definition nameVar :: "cmdline \<Rightarrow> string" where
  "nameVar cl = (case flag_name cl of None \<Rightarrow> [] | Some v \<Rightarrow> v)"

definition nameTitleVar :: "cmdline \<Rightarrow> string" where
  "nameTitleVar cl = (case flag_title cl of None \<Rightarrow> [] | Some v \<Rightarrow> v)"

definition imageVar :: "cmdline \<Rightarrow> string" where
  "imageVar cl = (case flag_image cl of None \<Rightarrow> [] | Some v \<Rightarrow> v)"

definition asModuleVar :: "cmdline \<Rightarrow> bool" where
  "asModuleVar cl = (case flag_as_module cl of None \<Rightarrow> False | Some v \<Rightarrow> v)"

definition seen :: "cmdline \<Rightarrow> string \<Rightarrow> bool" where
  "seen cl f =
     ((f = ''name'' \<and> flag_name cl \<noteq> None) \<or> (f = ''title'' \<and> flag_title cl \<noteq> None) \<or>
      (f = ''image'' \<and> flag_image cl \<noteq> None) \<or> (f = ''as-module'' \<and> flag_as_module cl \<noteq> None))"

text \<open>The first required flag that was not given, in the order of the list.\<close>

fun first_missing :: "cmdline \<Rightarrow> string list \<Rightarrow> string option" where
  "first_missing cl [] = None"
| "first_missing cl (req # reqs) = (if \<not> seen cl req then Some req else first_missing cl reqs)"

text \<open>\<^verbatim>\<open>main\<close> returns the exit status of the process and the trace.\<close>

definition main :: "sys \<Rightarrow> cmdline \<Rightarrow> call list \<Rightarrow> nat \<times> call list" where
  "main s cl tr =
     (let required = [''name'', ''image'']
      in case first_missing cl required of
           Some req \<Rightarrow>
             (2, tr @ [CallPrint os_Stderr (''missing required -'' @ req @ '' argument/flag'' @ [CHR 0x0A])])
         | None \<Rightarrow>
             (let currentDir = ret_str s tr (CallAbs (sys_Dir s ''.''));
                  (err, tr1) = perform s (CallAbs (sys_Dir s ''.'')) tr
              in case err of
                   Some e \<Rightarrow>
                     (1, tr1 @ [CallPrint os_Stdout
                                  (''>> could not get the root dir: '' @ err_Error e @ [CHR 0x0A])])
                 | None \<Rightarrow>
                     (let ctx = NewContext s (sys_Dir s currentDir);
                          latestVersion = ret_str s tr1 (CallReadConfig (MkdocsConfigFile s ctx));
                          (err, tr2) = perform s (CallReadConfig (MkdocsConfigFile s ctx)) tr1
                      in case err of
                           Some e \<Rightarrow>
                             (1, tr2 @ [CallPrint os_Stdout
                                          (''>> could not read MkDocs config: '' @ err_Error e @ [CHR 0x0A])])
                         | None \<Rightarrow>
                             (let example = \<lparr>Image = imageVar cl, IsModule = asModuleVar cl,
                                             Name = nameVar cl, TitleName = nameTitleVar cl,
                                             TCVersion = latestVersion\<rparr>;
                                  (err, tr3) = generate s example ctx tr2
                              in case err of
                                   Some e \<Rightarrow>
                                     (1, tr3 @ [CallPrint os_Stdout
                                                  (''>> error generating the example: '' @ err_Error e @
                                                   [CHR 0x0A])])
                                 | None \<Rightarrow>
                                     (let cmdDir = sys_Join s [RootDir ctx, ParentDir example, Lower s example];
                                          (err, tr4) = perform s (CallGoModTidy cmdDir) tr3
                                      in case err of
                                           Some e \<Rightarrow>
                                             (1, tr4 @ [CallPrint os_Stdout
                                                          (''>> error synchronizing the dependencies: '' @
                                                           err_Error e @ [CHR 0x0A])])
                                         | None \<Rightarrow>
                                             (let (err, tr5) = perform s (CallGoVet cmdDir) tr4
                                              in case err of
                                                   Some e \<Rightarrow>
                                                     (1, tr5 @ [CallPrint os_Stdout
                                                                  (''>> error checking generated code: '' @
                                                                   err_Error e @ [CHR 0x0A])])
                                                 | None \<Rightarrow>
                                                     (0, tr5 @
                                                      [CallPrint os_Stdout
                                                         (''Please go to '' @ cmdDir @
                                                          '' directory to check the results, where '' @
                                                          [CHR 0x27] @ ''go mod tidy'' @ [CHR 0x27] @
                                                          '' and '' @ [CHR 0x27] @ ''go vet'' @ [CHR 0x27] @
                                                          '' was executed to synchronize the dependencies'' @
                                                          [CHR 0x0A]),
                                                       CallPrint os_Stdout
                                                         (''Commit the modified files and submit a pull request to include them into the project'' @
                                                          [CHR 0x0A]),
                                                       CallPrint os_Stdout (''Thanks!'' @ [CHR 0x0A])])))))))"

text \<open>The calls that create or change files or directories.\<close>

fun changes_files :: "call \<Rightarrow> bool" where
  "changes_files (CallPrint f m) = False"
| "changes_files (CallAbs p) = False"
| "changes_files (CallReadConfig p) = False"
| "changes_files (CallClose p) = False"
| "changes_files CallGetwd = False"
| "changes_files (CallGetExamples c) = False"
| "changes_files (CallGetModules c) = False"
| "changes_files c = True"

section \<open>Concrete worlds, for running the definitions\<close>

definition posix_Split :: "string \<Rightarrow> string \<times> string" where
  "posix_Split p =
     (let n = length (dropWhile (\<lambda>c. c \<noteq> CHR ''/'') (rev p)) in (take n p, drop n p))"

definition posix_Dir :: "string \<Rightarrow> string" where
  "posix_Dir p =
     (let d = fst (posix_Split p)
      in if d = [] then ''.'' else if d = ''/'' then d else butlast d)"

text \<open>
  A Linux host whose working directory is \<^verbatim>\<open>/work\<close>, with \<^verbatim>\<open>docker-compose\<close> on the
  search path, where every process starts and exits cleanly.
\<close>

definition linux :: host where
  "linux =
     \<lparr>runtime_GOOS = ''linux'',
      os_PathListSeparator = CHR '':'',
      os_Environ = [''PATH=/usr/bin''],
      filepath_Abs = (\<lambda>p. (''/work/'' @ p, None)),
      filepath_Split = posix_Split,
      strings_ToLower = map ascii_lower,
      exec_LookPath = (\<lambda>b. if b = ''docker-compose'' then (''/usr/bin/docker-compose'', None)
                            else ([], Some (GoError ''executable file not found in $PATH''))),
      cmd_Start = (\<lambda>c. None),
      cmd_Wait = (\<lambda>c. None),
      read_errStdout = (\<lambda>c. None),
      read_errStderr = (\<lambda>c. None)\<rparr>"

text \<open>The same host without the executable, with a failing start, with a failing wait.\<close>

definition linux_no_compose :: host where
  "linux_no_compose =
     linux\<lparr>exec_LookPath := (\<lambda>b. ([], Some (GoError ''executable file not found in $PATH'')))\<rparr>"

definition linux_start_fails :: host where
  "linux_start_fails = linux\<lparr>cmd_Start := (\<lambda>c. Some (GoError ''permission denied''))\<rparr>"

definition linux_wait_fails :: host where
  "linux_wait_fails = linux\<lparr>cmd_Wait := (\<lambda>c. Some (GoError ''exit status 1''))\<rparr>"

text \<open>
  A world of the generator in which every call succeeds: the working directory is
  \<^verbatim>\<open>/repo/modulegen\<close> and the configuration gives the version \<^verbatim>\<open>v0.20.0\<close>.
\<close>

definition quiet :: sys where
  "quiet =
     \<lparr>ret_err = (\<lambda>tr c. None),
      ret_str = (\<lambda>tr c. case c of CallReadConfig p \<Rightarrow> ''v0.20.0'' | _ \<Rightarrow> ''/repo/modulegen''),
      ret_strs = (\<lambda>tr c. []),
      sys_Join = (\<lambda>ps. strings_Join ps ''/''),
      sys_Dir = posix_Dir,
      sys_ToLower = map ascii_lower,
      sys_Title = (\<lambda>x. x),
      sys_DecodeRuneInString = (\<lambda>x. (of_char (hd x), 1)),
      sys_unicode_ToLower = (\<lambda>r. r),
      sys_string_of_rune = (\<lambda>r. [char_of r]),
      NewContext = (\<lambda>d. \<lparr>RootDir = d\<rparr>),
      DocsDir = (\<lambda>c. RootDir c @ ''/docs''),
      MkdocsConfigFile = (\<lambda>c. RootDir c @ ''/mkdocs.yml''),
      DependabotConfigFile = (\<lambda>c. RootDir c @ ''/.github/dependabot.yml''),
      GithubWorkflowsDir = (\<lambda>c. RootDir c @ ''/.github/workflows'')\<rparr>"

section \<open>The Output Tee\<close>

lemma Write_eq:
  "Write wr t d = (fst (wr (w t) d), \<lparr>buf = buf t @ d, w = snd (wr (w t) d)\<rparr>)"
  by (simp add: Write_def Let_def split: prod.splits)

lemma tee_writes_buf:
  "buf (snd (tee_writes wr t ds)) = buf t @ concat ds"
  by (induction ds arbitrary: t) (simp_all add: Write_eq case_prod_beta)

lemma tee_writes_dst:
  "fst (tee_writes wr t ds) = fst (dst_writes wr (w t) ds) \<and>
   w (snd (tee_writes wr t ds)) = snd (dst_writes wr (w t) ds)"
  by (induction ds arbitrary: t) (simp_all add: Write_eq case_prod_beta)

lemma recording_calls:
  "snd (dst_writes recording_Write calls ds) = calls @ ds"
  by (induction ds arbitrary: calls) (simp_all add: recording_Write_def case_prod_beta)

text \<open>
  C3. One write on an Output Tee appends the bytes to the buffer, hands the same bytes to
  the destination and returns the destination's result. After any sequence of writes on a
  new tee, \<^verbatim>\<open>Bytes\<close> is the concatenation of the written byte sequences in order, and the
  results returned and the destination's final state are those of the same sequence of
  writes made on the destination itself; a destination that remembers its calls has
  received exactly the written byte sequences, in order.
\<close>

theorem tee_captures_and_forwards:
  "Write wr t d = (fst (wr (w t) d), \<lparr>buf = buf t @ d, w = snd (wr (w t) d)\<rparr>) \<and>
   Bytes (snd (tee_writes wr (newCapturingPassThroughWriter dst) ds)) = concat ds \<and>
   fst (tee_writes wr (newCapturingPassThroughWriter dst) ds) = fst (dst_writes wr dst ds) \<and>
   w (snd (tee_writes wr (newCapturingPassThroughWriter dst) ds)) = snd (dst_writes wr dst ds) \<and>
   w (snd (tee_writes recording_Write (newCapturingPassThroughWriter []) ds)) = ds"
  using tee_writes_buf [of wr "newCapturingPassThroughWriter dst" ds]
        tee_writes_dst [of wr "newCapturingPassThroughWriter dst" ds]
        tee_writes_dst [of recording_Write "newCapturingPassThroughWriter []" ds]
        recording_calls [of "[]" ds]
  by (simp add: Write_eq Bytes_def newCapturingPassThroughWriter_def)

section \<open>The Compose Driver and the Process Runner\<close>

lemma started_append: "started (xs @ ys) = started xs @ started ys"
  by (induction xs rule: started.induct) simp_all

lemma foldl_flag_pairs:
  "foldl (\<lambda>cmds abs. cmds @ [''-f'', abs]) acc xs = acc @ concat (map (\<lambda>abs. [''-f'', abs]) xs)"
  by (induction xs arbitrary: acc) simp_all

lemma foldl_path_list:
  "foldl (\<lambda>acc abs. acc @ abs @ [sep]) acc0 xs = acc0 @ concat (map (\<lambda>abs. abs @ [sep]) xs)"
  by (induction xs arbitrary: acc0) simp_all

lemma executeCompose_started:
  assumes "which h (Executable dc) = None"
  shows "started (snd (executeCompose h dc args tr)) =
     started tr @
     [\<lparr>Cmd_Path = Executable dc,
       Cmd_Args = (if absComposeFilePaths dc = [] then [''-f'', ''docker-compose.yml'']
                   else concat (map (\<lambda>abs. [''-f'', abs]) (absComposeFilePaths dc))) @ args,
       Cmd_Dir = (if absComposeFilePaths dc = [] then ''.''
                  else fst (filepath_Split h (hd (absComposeFilePaths dc)))),
       Cmd_Environ = os_Environ h,
       Cmd_Overlay = getDockerComposeEnvironment h dc ++ Env dc\<rparr>]"
  using assms
  by (cases "absComposeFilePaths dc")
     (simp_all add: executeCompose_def execute_def Let_def started_append foldl_flag_pairs
        split: option.splits)

lemma configured_fields:
  "Executable (configured h fps ident cmd env) =
     (if runtime_GOOS h = ''windows'' then ''docker-compose.exe'' else ''docker-compose'')"
  "absComposeFilePaths (configured h fps ident cmd env) = map (\<lambda>cfp. fst (filepath_Abs h cfp)) fps"
  "Identifier (configured h fps ident cmd env) = strings_ToLower h ident"
  "Cmd (configured h fps ident cmd env) = cmd"
  "Env (configured h fps ident cmd env) = env"
  by (simp_all add: configured_def WithEnv_def WithCommand_def NewLocalDockerCompose_def)

lemma getDockerComposeEnvironment_eq:
  "getDockerComposeEnvironment h dc =
     [envProjectName \<mapsto> Identifier dc,
      envComposeFile \<mapsto> concat (map (\<lambda>abs. abs @ [os_PathListSeparator h]) (absComposeFilePaths dc))]"
  by (simp add: getDockerComposeEnvironment_def Let_def foldl_path_list)

text \<open>
  C1, as amended. For a driver constructed with the file paths \<open>fps\<close> and then configured,
  whose executable is found: the argument list of the process begins with the pair
  \<^verbatim>\<open>-f <absolute path>\<close> for each path of \<open>fps\<close> in order, or with the single pair
  \<^verbatim>\<open>-f docker-compose.yml\<close> when \<open>fps\<close> is empty; after the pairs come the configured
  command tokens for \<^verbatim>\<open>Invoke\<close>, and the single token \<^verbatim>\<open>down\<close> for \<^verbatim>\<open>Down\<close>.
\<close>

theorem compose_args_assembly:
  assumes "which h (Executable (configured h fps ident cmd env)) = None"
  shows "map Cmd_Args (started (snd (Invoke h (configured h fps ident cmd env) tr))) =
           map Cmd_Args (started tr) @
           [(if fps = [] then [''-f'', ''docker-compose.yml'']
             else concat (map (\<lambda>p. [''-f'', fst (filepath_Abs h p)]) fps)) @ cmd] \<and>
         map Cmd_Args (started (snd (Down h (configured h fps ident cmd env) tr))) =
           map Cmd_Args (started tr) @
           [(if fps = [] then [''-f'', ''docker-compose.yml'']
             else concat (map (\<lambda>p. [''-f'', fst (filepath_Abs h p)]) fps)) @ [''down'']]"
  using executeCompose_started [OF assms]
  by (simp add: Invoke_def Down_def configured_fields map_concat o_def)

theorem compose_args_assembly_witness:
  "which linux (Executable (configured linux [''a.yml'', ''b.yml''] ''Proj'' [''up'', ''-d''] Map.empty)) = None \<and>
   map Cmd_Args (started (snd (Invoke linux (configured linux [''a.yml'', ''b.yml''] ''Proj'' [''up'', ''-d''] Map.empty) []))) =
     [[''-f'', ''/work/a.yml'', ''-f'', ''/work/b.yml'', ''up'', ''-d'']] \<and>
   map Cmd_Args (started (snd (Down linux (configured linux [''a.yml'', ''b.yml''] ''Proj'' [''up'', ''-d''] Map.empty) []))) =
     [[''-f'', ''/work/a.yml'', ''-f'', ''/work/b.yml'', ''down'']]"
proof -
  have ok: "which linux (Executable (configured linux [''a.yml'', ''b.yml''] ''Proj'' [''up'', ''-d''] Map.empty)) = None"
    by (simp add: which_def linux_def configured_fields)
  show ?thesis
    using ok compose_args_assembly [OF ok, of "[]"]
    by (simp add: linux_def)
qed

text \<open>
  C1 as stated fails for \<^verbatim>\<open>Down\<close>: on a driver configured with the command
  \<^verbatim>\<open>up -d\<close>, the tokens after the \<^verbatim>\<open>-f\<close> pair are \<^verbatim>\<open>down\<close>, not the configured
  command tokens.
\<close>

theorem down_ignores_configured_command:
  "map Cmd_Args (started (snd (Down linux (configured linux [] ''Proj'' [''up'', ''-d''] Map.empty) []))) =
     [[''-f'', ''docker-compose.yml'', ''down'']] \<and>
   map Cmd_Args (started (snd (Down linux (configured linux [] ''Proj'' [''up'', ''-d''] Map.empty) []))) \<noteq>
     [[''-f'', ''docker-compose.yml''] @ [''up'', ''-d'']]"
  by (simp add: Down_def executeCompose_def execute_def which_def linux_def configured_def
        WithEnv_def WithCommand_def NewLocalDockerCompose_def Let_def)


text \<open>
  C2. For \<^verbatim>\<open>Down\<close> and \<^verbatim>\<open>Invoke\<close> on a driver constructed with the identifier
  \<open>ident\<close> and the file paths \<open>fps\<close>, whose executable is found: the environment overlay
  handed to the process is the map that binds \<^verbatim>\<open>COMPOSE_PROJECT_NAME\<close> to the lower-cased
  identifier and \<^verbatim>\<open>COMPOSE_FILE\<close> to the concatenation of the absolute paths, each followed
  by the path-list separator, with the user's overlay \<open>env\<close> merged on top (\<open>m ++ env\<close>
  takes the value of \<open>env\<close> wherever \<open>env\<close> binds the key).
\<close>

theorem compose_environment:
  assumes "op = Down \<or> op = Invoke"
    and "which h (Executable (configured h fps ident cmd env)) = None"
  shows "map Cmd_Overlay (started (snd (op h (configured h fps ident cmd env) tr))) =
           map Cmd_Overlay (started tr) @
           [[envProjectName \<mapsto> strings_ToLower h ident,
             envComposeFile \<mapsto>
               concat (map (\<lambda>p. fst (filepath_Abs h p) @ [os_PathListSeparator h]) fps)] ++ env]"
  using assms(1) executeCompose_started [OF assms(2)]
  by (auto simp add: Invoke_def Down_def configured_fields getDockerComposeEnvironment_eq
        map_concat o_def)

theorem compose_environment_witness:
  "(Invoke = Down \<or> Invoke = Invoke) \<and>
   which linux (Executable (configured linux [''a.yml'', ''b.yml''] ''Proj'' [''up'']
      [''COMPOSE_FILE'' \<mapsto> ''x.yml'', ''DEBUG'' \<mapsto> ''1''])) = None \<and>
   map (\<lambda>m. (m ''COMPOSE_PROJECT_NAME'', m ''COMPOSE_FILE'', m ''DEBUG''))
     (map Cmd_Overlay (started (snd (Invoke linux (configured linux [''a.yml'', ''b.yml''] ''Proj'' [''up'']
        [''COMPOSE_FILE'' \<mapsto> ''x.yml'', ''DEBUG'' \<mapsto> ''1'']) [])))) =
     [(Some ''proj'', Some ''x.yml'', Some ''1'')] \<and>
   map (\<lambda>m. (m ''COMPOSE_PROJECT_NAME'', m ''COMPOSE_FILE'', m ''DEBUG''))
     (map Cmd_Overlay (started (snd (Invoke linux
        (configured linux [''a.yml'', ''b.yml''] ''Proj'' [''up''] Map.empty) [])))) =
     [(Some ''proj'', Some ''/work/a.yml:/work/b.yml:'', None)]"
proof -
  have ok: "which linux (Executable (configured linux [''a.yml'', ''b.yml''] ''Proj'' [''up''] env)) = None"
    for env
    by (simp add: which_def linux_def configured_fields)
  have a: "map Cmd_Overlay (started (snd (Invoke linux (configured linux [''a.yml'', ''b.yml''] ''Proj'' [''up'']
        [''COMPOSE_FILE'' \<mapsto> ''x.yml'', ''DEBUG'' \<mapsto> ''1'']) []))) =
      [[envProjectName \<mapsto> ''proj'', envComposeFile \<mapsto> ''/work/a.yml:/work/b.yml:''] ++
       [''COMPOSE_FILE'' \<mapsto> ''x.yml'', ''DEBUG'' \<mapsto> ''1'']]"
    using compose_environment [of Invoke, OF _ ok, of _ "[]"]
    by (simp add: linux_def ascii_lower_def)
  have b: "map Cmd_Overlay (started (snd (Invoke linux
        (configured linux [''a.yml'', ''b.yml''] ''Proj'' [''up''] Map.empty) []))) =
      [[envProjectName \<mapsto> ''proj'', envComposeFile \<mapsto> ''/work/a.yml:/work/b.yml:''] ++ Map.empty]"
    using compose_environment [of Invoke, OF _ ok, of _ "[]"]
    by (simp add: linux_def ascii_lower_def)
  show ?thesis
    unfolding a b using ok by (simp add: envProjectName_def envComposeFile_def)
qed

text \<open>
  C7. For \<^verbatim>\<open>Down\<close> and \<^verbatim>\<open>Invoke\<close> on a driver constructed with the file paths
  \<open>fps\<close>, whose executable is found: the working directory of the process is the directory
  part (\<^verbatim>\<open>filepath.Split\<close>) of the absolute path of the first file when there is one, and
  \<^verbatim>\<open>.\<close> otherwise.
\<close>

theorem compose_working_directory:
  assumes "op = Down \<or> op = Invoke"
    and "which h (Executable (configured h fps ident cmd env)) = None"
  shows "map Cmd_Dir (started (snd (op h (configured h fps ident cmd env) tr))) =
           map Cmd_Dir (started tr) @
           [case fps of [] \<Rightarrow> ''.'' | p # _ \<Rightarrow> fst (filepath_Split h (fst (filepath_Abs h p)))]"
  using assms(1) executeCompose_started [OF assms(2)]
  by (cases fps) (auto simp add: Invoke_def Down_def configured_fields)

theorem compose_working_directory_witness:
  "(Invoke = Down \<or> Invoke = Invoke) \<and>
   which linux (Executable (configured linux [''testdata/docker-compose.yml'', ''b.yml''] ''MyProject'' [''up'', ''-d''] Map.empty)) = None \<and>
   map Cmd_Dir (started (snd (Invoke linux
      (configured linux [''testdata/docker-compose.yml'', ''b.yml''] ''MyProject'' [''up'', ''-d''] Map.empty) []))) =
     [''/work/testdata/'']"
proof -
  have ok: "which linux (Executable (configured linux [''testdata/docker-compose.yml'', ''b.yml''] ''MyProject'' [''up'', ''-d''] Map.empty)) = None"
    by (simp add: which_def linux_def configured_fields)
  show ?thesis
    using ok compose_working_directory [of Invoke, OF _ ok, of "[]"]
    by (simp add: linux_def posix_Split_def)
qed

text \<open>
  C4. When the process fails to start, \<^verbatim>\<open>execute\<close> returns the start error in
  \<open>Error\<close> with \<open>Stdout\<close> and \<open>Stderr\<close> nil, and its trace ends with the start: neither
  copying goroutine was spawned and nothing waited.
\<close>

theorem execute_start_failure:
  assumes "cmd_Start h \<lparr>Cmd_Path = binary, Cmd_Args = args, Cmd_Dir = dirContext,
                         Cmd_Environ = os_Environ h, Cmd_Overlay = environment\<rparr> = Some e"
  shows "execute h dirContext environment binary args tr =
           (\<lparr>Error = Some e, Stdout = None, Stderr = None\<rparr>,
            tr @ [EvStdoutPipe, EvStderrPipe, EvNewTee os_Stdout, EvNewTee os_Stderr,
                  EvStart \<lparr>Cmd_Path = binary, Cmd_Args = args, Cmd_Dir = dirContext,
                           Cmd_Environ = os_Environ h, Cmd_Overlay = environment\<rparr>])"
  using assms by (simp add: execute_def Let_def)

theorem execute_start_failure_witness:
  "cmd_Start linux_start_fails \<lparr>Cmd_Path = ''docker-compose'', Cmd_Args = [''up''], Cmd_Dir = ''.'',
       Cmd_Environ = os_Environ linux_start_fails, Cmd_Overlay = Map.empty\<rparr> =
     Some (GoError ''permission denied'') \<and>
   fst (execute linux_start_fails ''.'' Map.empty ''docker-compose'' [''up''] []) =
     \<lparr>Error = Some (GoError ''permission denied''), Stdout = None, Stderr = None\<rparr> \<and>
   length (snd (execute linux_start_fails ''.'' Map.empty ''docker-compose'' [''up''] [])) = 5"
proof -
  have h: "cmd_Start linux_start_fails \<lparr>Cmd_Path = ''docker-compose'', Cmd_Args = [''up''], Cmd_Dir = ''.'',
       Cmd_Environ = os_Environ linux_start_fails, Cmd_Overlay = Map.empty\<rparr> =
     Some (GoError ''permission denied'')"
    by (simp add: linux_start_fails_def linux_def)
  show ?thesis
    using h execute_start_failure [OF h, of "[]"] by simp
qed

text \<open>
  C5. When the executable of the driver is not found on the search path, \<^verbatim>\<open>Down\<close> and
  \<^verbatim>\<open>Invoke\<close> panic, and the look-up is all they did: no Output Tee was created and no
  process was started.
\<close>

theorem compose_preflight_panics:
  assumes "op = Down \<or> op = Invoke"
    and "which h (Executable dc) \<noteq> None"
  shows "op h dc tr =
           (Panic (''Local Docker Compose not found. Is '' @ Executable dc @ '' on the PATH?''),
            tr @ [EvLookPath (Executable dc)])"
  using assms by (auto simp add: Invoke_def Down_def executeCompose_def Let_def)

theorem compose_preflight_panics_witness:
  "(Down = Down \<or> Down = Invoke) \<and>
   which linux_no_compose (Executable (configured linux_no_compose [''a.yml''] ''Proj'' [''up''] Map.empty)) \<noteq> None \<and>
   Down linux_no_compose (configured linux_no_compose [''a.yml''] ''Proj'' [''up''] Map.empty) [] =
     (Panic ''Local Docker Compose not found. Is docker-compose on the PATH?'',
      [EvLookPath ''docker-compose''])"
proof -
  have h: "which linux_no_compose (Executable (configured linux_no_compose [''a.yml''] ''Proj'' [''up''] Map.empty)) \<noteq> None"
    by (simp add: which_def linux_no_compose_def linux_def configured_fields)
  show ?thesis
    using h compose_preflight_panics [of Down, OF _ h, of "[]"]
    by (simp add: configured_fields linux_no_compose_def linux_def)
qed


lemma executeCompose_not_found:
  assumes "which h (Executable dc) \<noteq> None"
  shows "started (snd (executeCompose h dc args tr)) = started tr"
  using assms by (auto simp add: executeCompose_def Let_def started_append)

lemma executeCompose_result:
  assumes "started (snd (executeCompose h dc args tr)) = started tr @ [c]"
  shows "fst (executeCompose h dc args tr) =
     (case cmd_Start h c of
        Some e \<Rightarrow> Panic (''Local Docker compose exited abnormally whilst running '' @
                         Executable dc @ '': ['' @ strings_Join (Cmd dc) '' '' @ '']. '' @ err_Error e)
      | None \<Rightarrow>
         (case cmd_Wait h c of
            Some e \<Rightarrow> Panic (''Local Docker compose exited abnormally whilst running '' @
                         Executable dc @ '': ['' @ strings_Join (Cmd dc) '' '' @ '']. '' @ err_Error e)
          | None \<Rightarrow> Return \<lparr>Error = None, Stdout = read_errStdout h c, Stderr = read_errStderr h c\<rparr>))"
proof (cases "which h (Executable dc)")
  case (Some e)
  then show ?thesis using assms executeCompose_not_found [of h dc args tr] by simp
next
  case None
  then show ?thesis
    using assms
    by (cases "absComposeFilePaths dc")
       (auto simp add: executeCompose_def execute_def Let_def started_append foldl_flag_pairs
          split: option.splits)
qed

lemma executeCompose_returns:
  assumes "fst (executeCompose h dc args tr) = Return r"
  shows "Error r = None"
  using assms
  by (auto simp add: executeCompose_def Let_def case_prod_beta split: if_splits option.splits)

text \<open>
  C6. For \<^verbatim>\<open>Down\<close> and \<^verbatim>\<open>Invoke\<close>: when the executable is found, the operation
  starts exactly one command \<open>c\<close>, and if \<open>c\<close> starts and then reports the error \<open>e\<close> from
  its wait, the operation panics, with a message that ends with the message of \<open>e\<close>, and
  returns nothing to its caller; and whenever the operation returns an \<^verbatim>\<open>ExecError\<close>,
  its \<open>Error\<close> field is nil.
\<close>

theorem compose_wait_failure_panics:
  assumes "op = Down \<or> op = Invoke"
  shows "(which h (Executable dc) = None \<longrightarrow>
            (\<exists>c. started (snd (op h dc tr)) = started tr @ [c] \<and>
                 (\<forall>e. cmd_Start h c = None \<and> cmd_Wait h c = Some e \<longrightarrow>
                    fst (op h dc tr) =
                      Panic (''Local Docker compose exited abnormally whilst running '' @
                             Executable dc @ '': ['' @ strings_Join (Cmd dc) '' '' @ '']. '' @
                             err_Error e)))) \<and>
         (\<forall>r. fst (op h dc tr) = Return r \<longrightarrow> Error r = None)"
proof -
  have one: "\<exists>c. started (snd (executeCompose h dc args tr)) = started tr @ [c] \<and>
                 (\<forall>e. cmd_Start h c = None \<and> cmd_Wait h c = Some e \<longrightarrow>
                    fst (executeCompose h dc args tr) =
                      Panic (''Local Docker compose exited abnormally whilst running '' @
                             Executable dc @ '': ['' @ strings_Join (Cmd dc) '' '' @ '']. '' @
                             err_Error e))"
    if ok: "which h (Executable dc) = None" for args
  proof -
    obtain c where c: "started (snd (executeCompose h dc args tr)) = started tr @ [c]"
      using executeCompose_started [OF ok, of args tr] by blast
    show ?thesis
      using c executeCompose_result [OF c] by auto
  qed
  have two: "\<forall>r. fst (executeCompose h dc args tr) = Return r \<longrightarrow> Error r = None" for args
    using executeCompose_returns [of h dc args tr] by blast
  from assms show ?thesis
  proof
    assume "op = Down"
    then show ?thesis using one [of "[''down'']"] two [of "[''down'']"] by (simp add: Down_def)
  next
    assume "op = Invoke"
    then show ?thesis using one [of "Cmd dc"] two [of "Cmd dc"] by (simp add: Invoke_def)
  qed
qed

theorem compose_wait_failure_panics_witness:
  "(Down = Down \<or> Down = Invoke) \<and> (Invoke = Down \<or> Invoke = Invoke) \<and>
   which linux_wait_fails
     (Executable (configured linux_wait_fails [''a.yml''] ''Proj'' [''up'', ''-d''] Map.empty)) = None \<and>
   map Cmd_Args (started (snd (Down linux_wait_fails
     (configured linux_wait_fails [''a.yml''] ''Proj'' [''up'', ''-d''] Map.empty) []))) =
     [[''-f'', ''/work/a.yml'', ''down'']] \<and>
   fst (Down linux_wait_fails (configured linux_wait_fails [''a.yml''] ''Proj'' [''up'', ''-d''] Map.empty) []) =
     Panic ''Local Docker compose exited abnormally whilst running docker-compose: [up -d]. exit status 1'' \<and>
   fst (Invoke linux_wait_fails (configured linux_wait_fails [''a.yml''] ''Proj'' [''up'', ''-d''] Map.empty) []) =
     Panic ''Local Docker compose exited abnormally whilst running docker-compose: [up -d]. exit status 1'' \<and>
   fst (Down linux (configured linux [''a.yml''] ''Proj'' [''up'', ''-d''] Map.empty) []) =
     Return \<lparr>Error = None, Stdout = None, Stderr = None\<rparr> \<and>
   Error \<lparr>Error = None, Stdout = None, Stderr = None\<rparr> = None"
proof -
  let ?dc = "configured linux_wait_fails [''a.yml''] ''Proj'' [''up'', ''-d''] Map.empty"
  have ok: "which linux_wait_fails (Executable ?dc) = None"
    by (simp add: which_def linux_wait_fails_def linux_def configured_fields)
  have s0: "cmd_Start linux_wait_fails c = None" for c
    by (simp add: linux_wait_fails_def linux_def)
  have w0: "cmd_Wait linux_wait_fails c = Some (GoError ''exit status 1'')" for c
    by (simp add: linux_wait_fails_def linux_def)
  have msg: "''Local Docker compose exited abnormally whilst running '' @ Executable ?dc @ '': ['' @
             strings_Join (Cmd ?dc) '' '' @ '']. '' @ err_Error (GoError ''exit status 1'') =
             ''Local Docker compose exited abnormally whilst running docker-compose: [up -d]. exit status 1''"
    by (simp add: configured_fields linux_wait_fails_def linux_def)
  have d: "fst (Down linux_wait_fails ?dc []) =
     Panic ''Local Docker compose exited abnormally whilst running docker-compose: [up -d]. exit status 1''"
    using compose_wait_failure_panics [of Down linux_wait_fails ?dc "[]"] ok s0 w0 msg by auto
  have i: "fst (Invoke linux_wait_fails ?dc []) =
     Panic ''Local Docker compose exited abnormally whilst running docker-compose: [up -d]. exit status 1''"
    using compose_wait_failure_panics [of Invoke linux_wait_fails ?dc "[]"] ok s0 w0 msg by auto
  have a: "map Cmd_Args (started (snd (Down linux_wait_fails ?dc []))) = [[''-f'', ''/work/a.yml'', ''down'']]"
    by (simp add: Down_def executeCompose_def execute_def which_def linux_wait_fails_def linux_def
          configured_def WithEnv_def WithCommand_def NewLocalDockerCompose_def Let_def)
  have ret: "fst (Down linux (configured linux [''a.yml''] ''Proj'' [''up'', ''-d''] Map.empty) []) =
     Return \<lparr>Error = None, Stdout = None, Stderr = None\<rparr>"
    by (simp add: Down_def executeCompose_def execute_def which_def linux_def
          configured_def WithEnv_def WithCommand_def NewLocalDockerCompose_def Let_def)
  have e: "Error \<lparr>Error = None, Stdout = None, Stderr = None\<rparr> = None"
    using compose_wait_failure_panics [of Down linux "configured linux [''a.yml''] ''Proj'' [''up'', ''-d''] Map.empty" "[]"] ret
    by blast
  show ?thesis using ok d i a ret e by simp
qed

text \<open>
  C9. For a driver constructed with no compose file path, the computed environment binds
  \<^verbatim>\<open>COMPOSE_FILE\<close> to the empty string; the argument list of the process nevertheless
  begins with \<^verbatim>\<open>-f docker-compose.yml\<close>, and the process gets the empty
  \<^verbatim>\<open>COMPOSE_FILE\<close> unless the user's overlay binds that name.
\<close>

theorem empty_file_list_environment:
  "getDockerComposeEnvironment h (configured h [] ident cmd env) envComposeFile = Some [] \<and>
   (which h (Executable (configured h [] ident cmd env)) = None \<longrightarrow>
      map Cmd_Args (started (snd (Invoke h (configured h [] ident cmd env) tr))) =
        map Cmd_Args (started tr) @ [[''-f'', ''docker-compose.yml''] @ cmd] \<and>
      map Cmd_Args (started (snd (Down h (configured h [] ident cmd env) tr))) =
        map Cmd_Args (started tr) @ [[''-f'', ''docker-compose.yml''] @ [''down'']] \<and>
      (env envComposeFile = None \<longrightarrow>
         map (\<lambda>c. Cmd_Overlay c envComposeFile) (started (snd (Invoke h (configured h [] ident cmd env) tr))) =
           map (\<lambda>c. Cmd_Overlay c envComposeFile) (started tr) @ [Some []] \<and>
         map (\<lambda>c. Cmd_Overlay c envComposeFile) (started (snd (Down h (configured h [] ident cmd env) tr))) =
           map (\<lambda>c. Cmd_Overlay c envComposeFile) (started tr) @ [Some []]))"
proof -
  have a: "getDockerComposeEnvironment h (configured h [] ident cmd env) envComposeFile = Some []"
    by (simp add: getDockerComposeEnvironment_eq configured_fields)
  have b: "(getDockerComposeEnvironment h (configured h [] ident cmd env) ++ env) envComposeFile = Some []"
    if "env envComposeFile = None"
    using that a by (simp add: map_add_def)
  show ?thesis
    using a b executeCompose_started [of h "configured h [] ident cmd env" _ tr]
    by (simp add: Invoke_def Down_def configured_fields)
qed

theorem empty_file_list_environment_witness:
  "which linux (Executable (configured linux [] ''Proj'' [''ps''] [''DEBUG'' \<mapsto> ''1''])) = None \<and>
   [''DEBUG'' \<mapsto> ''1''] envComposeFile = None \<and>
   getDockerComposeEnvironment linux (configured linux [] ''Proj'' [''ps''] [''DEBUG'' \<mapsto> ''1'']) ''COMPOSE_FILE'' =
     Some [] \<and>
   map Cmd_Args (started (snd (Invoke linux (configured linux [] ''Proj'' [''ps''] [''DEBUG'' \<mapsto> ''1'']) []))) =
     [[''-f'', ''docker-compose.yml'', ''ps'']] \<and>
   map (\<lambda>c. Cmd_Overlay c ''COMPOSE_FILE'')
     (started (snd (Invoke linux (configured linux [] ''Proj'' [''ps''] [''DEBUG'' \<mapsto> ''1'']) []))) = [Some []]"
proof -
  have ok: "which linux (Executable (configured linux [] ''Proj'' [''ps''] [''DEBUG'' \<mapsto> ''1''])) = None"
    by (simp add: which_def linux_def configured_fields)
  have free: "[''DEBUG'' \<mapsto> ''1''] envComposeFile = None"
    by (simp add: envComposeFile_def)
  show ?thesis
    using ok free
      empty_file_list_environment [of linux "''Proj''" "[''ps'']" "[''DEBUG'' \<mapsto> ''1'']" "[]"]
    by (simp add: envComposeFile_def)
qed

section \<open>The generator\<close>

lemma MatchString_empty: "\<not> MatchString []" by simp

lemma Validate_empty_title:
  assumes "TitleName e = []"
  shows "Validate e \<noteq> None"
  using assms by (simp add: Validate_def)

lemma generate_invalid:
  assumes "Validate e = Some err"
  shows "generate s e ctx tr = (Some err, tr)"
  using assms by (simp add: generate_def)

lemma main_title_omitted:
  assumes "flag_title cl = None"
  shows "fst (main s cl tr) \<noteq> 0 \<and> filter changes_files (snd (main s cl tr)) = filter changes_files tr"
proof -
  have v: "Validate \<lparr>Image = i, IsModule = m, Name = n, TitleName = nameTitleVar cl, TCVersion = t\<rparr> \<noteq> None"
    for i m n t
    using assms by (simp add: Validate_def nameTitleVar_def)
  show ?thesis
    by (auto simp add: main_def Let_def perform_def generate_def v split: option.splits)
qed

text \<open>
  C10. For every example whose \<open>TitleName\<close> is the empty string, \<^verbatim>\<open>Validate\<close> returns
  an error, and \<^verbatim>\<open>generate\<close> returns that error without having made any call. So every
  run of \<^verbatim>\<open>main\<close> whose command line does not give the title flag ends with a non-zero
  exit status and has made no call that creates or changes a file or directory.
\<close>

theorem empty_title_is_rejected:
  "(TitleName e = [] \<longrightarrow>
      (\<exists>err. Validate e = Some err \<and> generate s e ctx tr = (Some err, tr))) \<and>
   (flag_title cl = None \<longrightarrow>
      fst (main s cl tr) \<noteq> 0 \<and>
      filter changes_files (snd (main s cl tr)) = filter changes_files tr)"
  using Validate_empty_title [of e] generate_invalid [of e _ s ctx tr] main_title_omitted [of cl s tr]
  by auto


theorem empty_title_is_rejected_witness:
  "TitleName \<lparr>Image = ''redis:7'', IsModule = False, Name = ''redis'', TitleName = [],
              TCVersion = ''v0.20.0''\<rparr> = [] \<and>
   Validate \<lparr>Image = ''redis:7'', IsModule = False, Name = ''redis'', TitleName = [],
             TCVersion = ''v0.20.0''\<rparr> =
     Some (GoError ''invalid title: . Only alphanumerical characters are allowed (leading character must be a letter)'') \<and>
   generate quiet \<lparr>Image = ''redis:7'', IsModule = False, Name = ''redis'', TitleName = [],
                   TCVersion = ''v0.20.0''\<rparr> \<lparr>RootDir = ''/repo''\<rparr> [] =
     (Some (GoError ''invalid title: . Only alphanumerical characters are allowed (leading character must be a letter)''), []) \<and>
   flag_title \<lparr>flag_name = Some ''redis'', flag_title = None, flag_image = Some ''redis:7'',
               flag_as_module = None\<rparr> = None \<and>
   fst (main quiet \<lparr>flag_name = Some ''redis'', flag_title = None, flag_image = Some ''redis:7'',
                    flag_as_module = None\<rparr> []) = 1 \<and>
   filter changes_files
     (snd (main quiet \<lparr>flag_name = Some ''redis'', flag_title = None, flag_image = Some ''redis:7'',
                        flag_as_module = None\<rparr> [])) = []"
proof -
  let ?e = "\<lparr>Image = ''redis:7'', IsModule = False, Name = ''redis'', TitleName = [],
             TCVersion = ''v0.20.0''\<rparr>"
  let ?cl = "\<lparr>flag_name = Some ''redis'', flag_title = None, flag_image = Some ''redis:7'',
              flag_as_module = None\<rparr>"
  have v: "Validate ?e =
     Some (GoError ''invalid title: . Only alphanumerical characters are allowed (leading character must be a letter)'')"
    by (simp add: Validate_def isLetter_def isDigit_def)
  have m: "fst (main quiet ?cl []) = 1"
    by (simp add: main_def seen_def perform_def quiet_def generate_def Validate_def isLetter_def
          isDigit_def nameVar_def nameTitleVar_def imageVar_def asModuleVar_def Let_def posix_Dir_def
          posix_Split_def)
  have t: "TitleName ?e = []" by simp
  have f: "flag_title ?cl = None" by simp
  show ?thesis
    using empty_title_is_rejected [of ?e quiet "\<lparr>RootDir = ''/repo''\<rparr>" "[]" ?cl] t f v m
    by simp
qed

end
